theory Spec2Isabelle
  imports Main
begin

section \<open>Data model of \<^verbatim>\<open>src/server.js\<close>\<close>

text \<open>
  The booking back end is one route file on top of Express, Mongoose and bcrypt. The
  embedding follows the first document of \<^verbatim>\<open>src/server.js\<close> (the treatment catalog
  keyed by \<^verbatim>\<open>name\<close>, bookings that reference a treatment). The document store is an
  explicit value that every handler takes and returns; a rejected promise is an
  \<open>error\<close> value, and each \<^verbatim>\<open>try/catch\<close> of the source is a case distinction on it.

  An \<^verbatim>\<open>ObjectId\<close> is a natural number. A JavaScript \<^verbatim>\<open>Date\<close> is its time value, or
  \<open>InvalidDate\<close>. Strings are byte lists, so \<open>length\<close> agrees with JavaScript's
  \<^verbatim>\<open>.length\<close> on ASCII input. Every top-level document carries Mongoose's version key
  \<^verbatim>\<open>__v\<close>: 0 when the document is created, and one more after each \<^verbatim>\<open>save\<close> that pushed onto
  an array of the document.
\<close>

type_synonym objectId = nat

datatype jsDate = Date int | InvalidDate

datatype error =
    MongoError \<comment> \<open>the store rejected the operation (connection lost, timeout)\<close>
  | ValidationError "string list" \<comment> \<open>schema validation failed on these paths\<close>
  | DuplicateKey string \<comment> \<open>E11000 on a unique index\<close>
  | CastError string \<comment> \<open>a query value does not cast to the path's type\<close>
  | BcryptError \<comment> \<open>bcrypt was given a non-string argument\<close>
  | HeadersSent \<comment> \<open>ERR_HTTP_HEADERS_SENT: a second response on one request\<close>

datatype json =
    JNull
  | JBool bool
  | JNum int
  | JStr string
  | JId objectId
  | JDate jsDate
  | JErr error
  | JArr "json list"
  | JObj "(string \<times> json) list"

record response =
  status :: nat
  body :: json

text \<open>
  \<^verbatim>\<open>UserSchema.bookedTreatments\<close> declares one path, \<^verbatim>\<open>treatment\<close>; Mongoose adds
  an \<^verbatim>\<open>_id\<close> to every element of a document array.
\<close>

record bookedTreatment =
  bt_id :: objectId
  bt_treatment :: objectId

record user =
  user_id :: objectId
  firstName :: string
  lastName :: string
  email :: string
  mobilePhone :: int
  password :: string
  accessToken :: string
  bookedTreatments :: "bookedTreatment list"
  user_v :: nat

text \<open>\<^verbatim>\<open>TreatmentSchema\<close>: \<^verbatim>\<open>name\<close> is a String that is not required.\<close>

record treatment =
  treatment_id :: objectId
  treatment_name :: "string option"
  treatment_v :: nat

text \<open>
  The store: the two collections in insertion order, and whether the connection
  answers. When \<open>online\<close> is false every operation that needs a round trip rejects
  with \<open>MongoError\<close>.
\<close>

record db =
  users :: "user list"
  treatments :: "treatment list"
  online :: bool

text \<open>
  The value of \<^verbatim>\<open>req.body.treatmentId\<close> as Mongoose's ObjectId cast sees it: absent
  (\<^verbatim>\<open>undefined\<close>), a value that casts to an ObjectId, or a value on which the cast
  throws a \<^verbatim>\<open>CastError\<close> (any string such as \<^verbatim>\<open>"abc"\<close> that is neither 12 bytes nor
  24 hexadecimal digits).
\<close>

datatype idParam = Missing | Malformed | Id objectId

text \<open>
  A request: the \<^verbatim>\<open>Authorization\<close> header and the fields the handlers destructure
  from \<^verbatim>\<open>req.body\<close>. A field that is present has the JSON type its schema path
  expects; \<open>r_pickedDate\<close> is the value of \<^verbatim>\<open>new Date(pickedDate)\<close>.
\<close>

record request =
  authorization :: "string option"
  r_firstName :: "string option"
  r_lastName :: "string option"
  r_email :: "string option"
  r_mobilePhone :: "int option"
  r_password :: "string option"
  r_treatmentId :: idParam
  r_pickedDate :: jsDate

text \<open>What a handler leaves behind: the response the client received, if any, and the store.\<close>

record outcome =
  sent :: "response option"
  store :: db

text \<open>bcrypt is a parameter: nothing is assumed about the hash function.\<close>

record bcrypt =
  hashSync :: "string \<Rightarrow> string \<Rightarrow> string"
  compareSync :: "string \<Rightarrow> string \<Rightarrow> bool"

text \<open>
  The random values one registration draws: \<^verbatim>\<open>bcrypt.genSaltSync(10)\<close> and
  \<^verbatim>\<open>crypto.randomBytes(128).toString("hex")\<close>.
\<close>

record entropy =
  genSaltSync :: string
  randomBytes :: string

section \<open>Store operations\<close>

text \<open>A new ObjectId differs from every id of the collection.\<close>

definition newObjectId :: "objectId list \<Rightarrow> objectId" where
  "newObjectId ids = Suc (fold max ids 0)"

definition User_findOne :: "db \<Rightarrow> (user \<Rightarrow> bool) \<Rightarrow> error + user option" where
  "User_findOne d p = (if online d then Inr (find p (users d)) else Inl MongoError)"

definition User_findById :: "db \<Rightarrow> objectId \<Rightarrow> error + user option" where
  "User_findById d i = User_findOne d (\<lambda>u. user_id u = i)"

definition Treatment_findById :: "db \<Rightarrow> idParam \<Rightarrow> error + treatment option" where
  "Treatment_findById d p =
     (case p of
        Malformed \<Rightarrow> Inl (CastError ''_id'')
      | Missing \<Rightarrow> (if online d then Inr None else Inl MongoError)
      | Id i \<Rightarrow> (if online d then Inr (find (\<lambda>t. treatment_id t = i) (treatments d))
                 else Inl MongoError))"

text \<open>
  \<^verbatim>\<open>user.save()\<close> on a loaded document writes it back under its \<^verbatim>\<open>_id\<close>. The stored
  documents passed the schema's validators when they were created, so the validation
  that \<^verbatim>\<open>save\<close> repeats passes. The only caller saves after a \<^verbatim>\<open>push\<close> onto
  \<^verbatim>\<open>bookedTreatments\<close>, and Mongoose sends the increment of \<^verbatim>\<open>__v\<close> with such a save.
\<close>

fun replaceUser :: "user \<Rightarrow> user list \<Rightarrow> user list" where
  "replaceUser u [] = []"
| "replaceUser u (x # xs) = (if user_id x = user_id u then u # xs else x # replaceUser u xs)"

definition User_save :: "db \<Rightarrow> user \<Rightarrow> error + db" where
  "User_save d u =
     (if online d then Inr (d\<lparr>users := replaceUser (u\<lparr>user_v := Suc (user_v u)\<rparr>) (users d)\<rparr>)
      else Inl MongoError)"

section \<open>Serialisation\<close>

definition bookedTreatment_toJSON :: "bookedTreatment \<Rightarrow> json" where
  "bookedTreatment_toJSON b =
     JObj [(''_id'', JId (bt_id b)), (''treatment'', JId (bt_treatment b))]"

definition user_toJSON :: "user \<Rightarrow> json" where
  "user_toJSON u =
     JObj [(''_id'', JId (user_id u)),
           (''firstName'', JStr (firstName u)),
           (''lastName'', JStr (lastName u)),
           (''email'', JStr (email u)),
           (''mobilePhone'', JNum (mobilePhone u)),
           (''password'', JStr (password u)),
           (''accessToken'', JStr (accessToken u)),
           (''bookedTreatments'', JArr (map bookedTreatment_toJSON (bookedTreatments u))),
           (''__v'', JNum (int (user_v u)))]"

definition treatment_toJSON :: "treatment \<Rightarrow> json" where
  "treatment_toJSON t =
     JObj ((''_id'', JId (treatment_id t)) #
           (case treatment_name t of None \<Rightarrow> [] | Some n \<Rightarrow> [(''name'', JStr n)]) @
           [(''__v'', JNum (int (treatment_v t)))])"

text \<open>The value of a key of a JSON object.\<close>

definition field :: "json \<Rightarrow> string \<Rightarrow> json option" where
  "field j k = (case j of JObj kvs \<Rightarrow> map_of kvs k | _ \<Rightarrow> None)"

section \<open>The authentication middleware\<close>

text \<open>
  \<^verbatim>\<open>
  const authenticateUser = async (req, res, next) => {
    const accessToken = req.header("Authorization");
    try {
      const user = await User.findOne({accessToken: accessToken});
      if (user) { req.user = user; next(); }
      else { res.status(401).json({success: false, response: "Please log in", loggedOut: true}) }
    } catch (e) { res.status(500).json({success: false, response: e}); }
  }
  \<close>
  The result is \<open>Inr user\<close> when \<^verbatim>\<open>next()\<close> runs with \<^verbatim>\<open>req.user\<close> set, and
  \<open>Inl r\<close> when the middleware itself answers. A missing header is the query value
  \<^verbatim>\<open>undefined\<close>, which selects documents without a token; every user document has one
  (the schema default), so it selects none.
\<close>

definition unauthenticated :: response where
  "unauthenticated =
     \<lparr>status = 401,
      body = JObj [(''success'', JBool False), (''response'', JStr ''Please log in''),
                   (''loggedOut'', JBool True)]\<rparr>"

definition authFailed :: "error \<Rightarrow> response" where
  "authFailed e = \<lparr>status = 500, body = JObj [(''success'', JBool False), (''response'', JErr e)]\<rparr>"

definition authenticateUser :: "db \<Rightarrow> request \<Rightarrow> response + user" where
  "authenticateUser d req =
     (case User_findOne d (\<lambda>u. Some (accessToken u) = authorization req) of
        Inl e \<Rightarrow> Inl (authFailed e)
      | Inr None \<Rightarrow> Inl unauthenticated
      | Inr (Some u) \<Rightarrow> Inr u)"

section \<open>Authenticated endpoints\<close>

text \<open>
  \<^verbatim>\<open>
  app.post(PATHS.bookTreatment, authenticateUser, async (req, res) => {
    const { treatmentId, pickedDate } = req.body;
    const userId = req.user._id;
    try {
      const [user, treatment] = await Promise.all([
        User.findById(userId), Treatment.findById(treatmentId)]);
      if (!user || !treatment) {
        res.status(404).json({success: false, message: "User or treatment not found"});
        return;
      }
      const booking = {treatment: treatment._id, bookedDate: new Date(pickedDate)};
      user.bookedTreatments.push(booking);
      await user.save();
      res.status(200).json({success: true, message: "Treatment booked successfully", booking});
    } catch (error) {
      res.status(500).json({success: false, message: "Failed to book treatment", error});
    }
  });
  \<close>
  The plain object \<^verbatim>\<open>booking\<close> has the two keys the handler writes; pushing it onto
  \<^verbatim>\<open>user.bookedTreatments\<close> casts it to the array's schema, which keeps the declared
  path \<^verbatim>\<open>treatment\<close> and adds an \<^verbatim>\<open>_id\<close>. The response serialises the plain object.
\<close>

record booking =
  treatment :: objectId
  bookedDate :: jsDate

definition booking_toJSON :: "booking \<Rightarrow> json" where
  "booking_toJSON b = JObj [(''treatment'', JId (treatment b)), (''bookedDate'', JDate (bookedDate b))]"

definition push :: "bookedTreatment list \<Rightarrow> booking \<Rightarrow> bookedTreatment list" where
  "push bts b = bts @ [\<lparr>bt_id = newObjectId (map bt_id bts), bt_treatment = treatment b\<rparr>]"

definition notFound :: response where
  "notFound =
     \<lparr>status = 404,
      body = JObj [(''success'', JBool False), (''message'', JStr ''User or treatment not found'')]\<rparr>"

definition bookFailed :: "error \<Rightarrow> response" where
  "bookFailed e =
     \<lparr>status = 500,
      body = JObj [(''success'', JBool False), (''message'', JStr ''Failed to book treatment''),
                   (''error'', JErr e)]\<rparr>"

definition booked :: "booking \<Rightarrow> response" where
  "booked b =
     \<lparr>status = 200,
      body = JObj [(''success'', JBool True), (''message'', JStr ''Treatment booked successfully''),
                   (''booking'', booking_toJSON b)]\<rparr>"

text \<open>
  \<^verbatim>\<open>Promise.all\<close> rejects with the first rejection. The cast of \<^verbatim>\<open>treatmentId\<close> fails
  before any round trip, so a \<^verbatim>\<open>CastError\<close> of the second query comes before a store
  error of the first.
\<close>

definition Promise_all :: "error + 'a \<Rightarrow> error + 'b \<Rightarrow> error + 'a \<times> 'b" where
  "Promise_all a b =
     (case b of
        Inl (CastError p) \<Rightarrow> Inl (CastError p)
      | _ \<Rightarrow>
        (case a of
           Inl e \<Rightarrow> Inl e
         | Inr x \<Rightarrow> (case b of Inl e \<Rightarrow> Inl e | Inr y \<Rightarrow> Inr (x, y))))"

definition bookTreatment_handler :: "db \<Rightarrow> request \<Rightarrow> user \<Rightarrow> outcome" where
  "bookTreatment_handler d req req_user =
     (let userId = user_id req_user in
      case Promise_all (User_findById d userId) (Treatment_findById d (r_treatmentId req)) of
        Inl e \<Rightarrow> \<lparr>sent = Some (bookFailed e), store = d\<rparr>
      | Inr (Some u, Some t) \<Rightarrow>
          (let booking = \<lparr>treatment = treatment_id t, bookedDate = r_pickedDate req\<rparr>;
               u' = u\<lparr>bookedTreatments := push (bookedTreatments u) booking\<rparr>
           in case User_save d u' of
                Inl e \<Rightarrow> \<lparr>sent = Some (bookFailed e), store = d\<rparr>
              | Inr d' \<Rightarrow> \<lparr>sent = Some (booked booking), store = d'\<rparr>)
      | Inr _ \<Rightarrow> \<lparr>sent = Some notFound, store = d\<rparr>)"

definition bookTreatment :: "db \<Rightarrow> request \<Rightarrow> outcome" where
  "bookTreatment d req =
     (case authenticateUser d req of
        Inl r \<Rightarrow> \<lparr>sent = Some r, store = d\<rparr>
      | Inr u \<Rightarrow> bookTreatment_handler d req u)"

text \<open>
  \<^verbatim>\<open>app.get(PATHS.bookedTreatment, authenticateUser, ...)\<close>: \<^verbatim>\<open>populate\<close> replaces each
  treatment reference by the catalog entry, or by \<^verbatim>\<open>null\<close> when there is none.
\<close>

definition populate :: "db \<Rightarrow> bookedTreatment \<Rightarrow> json" where
  "populate d b =
     JObj [(''_id'', JId (bt_id b)),
           (''treatment'',
            (case find (\<lambda>t. treatment_id t = bt_treatment b) (treatments d) of
               None \<Rightarrow> JNull
             | Some t \<Rightarrow> treatment_toJSON t))]"

definition execPopulate :: "db \<Rightarrow> user \<Rightarrow> error + json list" where
  "execPopulate d u =
     (if bookedTreatments u = [] \<or> online d then Inr (map (populate d) (bookedTreatments u))
      else Inl MongoError)"

definition bookedTreatment :: "db \<Rightarrow> request \<Rightarrow> outcome" where
  "bookedTreatment d req =
     (case authenticateUser d req of
        Inl r \<Rightarrow> \<lparr>sent = Some r, store = d\<rparr>
      | Inr u \<Rightarrow>
          (case execPopulate d u of
             Inr bts \<Rightarrow>
               \<lparr>sent = Some \<lparr>status = 200,
                   body = JObj [(''success'', JBool True),
                                (''message'', JStr ''Booked treatments retrieved successfully''),
                                (''bookedTreatments'', JArr bts)]\<rparr>,
                store = d\<rparr>
           | Inl e \<Rightarrow>
               \<lparr>sent = Some \<lparr>status = 500,
                   body = JObj [(''success'', JBool False),
                                (''message'', JStr ''Failed to retrieve booked treatments''),
                                (''error'', JErr e)]\<rparr>,
                store = d\<rparr>))"

text \<open>
  \<^verbatim>\<open>
  app.get(PATHS.userInfo, authenticateUser, async (req, res) => {
    try {
      const user = req.user;
      const secretMessage = "This is your user information";
      res.status(200).json({ success: true, message: secretMessage, user });
    } catch (e) { res.status(500).json({success: false, response: e}); }
  });
  \<close>
  Nothing in the \<^verbatim>\<open>try\<close> block rejects. \<^verbatim>\<open>res.json\<close> serialises the Mongoose document
  with all its stored paths.
\<close>

definition userInfo :: "db \<Rightarrow> request \<Rightarrow> outcome" where
  "userInfo d req =
     (case authenticateUser d req of
        Inl r \<Rightarrow> \<lparr>sent = Some r, store = d\<rparr>
      | Inr u \<Rightarrow>
          \<lparr>sent = Some \<lparr>status = 200,
              body = JObj [(''success'', JBool True),
                           (''message'', JStr ''This is your user information''),
                           (''user'', user_toJSON u)]\<rparr>,
           store = d\<rparr>)"

section \<open>Registration\<close>

text \<open>
  The schema validators of \<^verbatim>\<open>UserSchema\<close>: \<^verbatim>\<open>firstName\<close> and \<^verbatim>\<open>lastName\<close> are
  required with \<^verbatim>\<open>minlength: 2, maxlength: 30\<close>; \<^verbatim>\<open>email\<close>, \<^verbatim>\<open>mobilePhone\<close> and
  \<^verbatim>\<open>password\<close> are required (a required String must not be empty). \<^verbatim>\<open>validatePhone\<close>
  runs on the value cast to a Number, throws for no number and passes.
\<close>

definition validName :: "string option \<Rightarrow> bool" where
  "validName v = (case v of None \<Rightarrow> False | Some s \<Rightarrow> 2 \<le> length s \<and> length s \<le> 30)"

definition invalidPaths ::
  "string option \<Rightarrow> string option \<Rightarrow> string option \<Rightarrow> int option \<Rightarrow> string \<Rightarrow> string list" where
  "invalidPaths fn ln em ph pwHash =
     (if validName fn then [] else [''firstName'']) @
     (if validName ln then [] else [''lastName'']) @
     (if em = None \<or> em = Some [] then [''email''] else []) @
     (if ph = None then [''mobilePhone''] else []) @
     (if pwHash = [] then [''password''] else [])"

text \<open>
  \<^verbatim>\<open>await new User({firstName, lastName, email, mobilePhone, password: hash}).save()\<close>:
  the constructor fills \<^verbatim>\<open>_id\<close> and the default \<^verbatim>\<open>accessToken\<close>; \<^verbatim>\<open>save\<close> validates,
  then inserts, and the unique indexes on \<^verbatim>\<open>email\<close> and \<^verbatim>\<open>mobilePhone\<close> reject a
  duplicate.
\<close>

definition User_create ::
  "db \<Rightarrow> entropy \<Rightarrow> string option \<Rightarrow> string option \<Rightarrow> string option \<Rightarrow> int option \<Rightarrow> string
     \<Rightarrow> error + db \<times> user" where
  "User_create d rnd fn ln em ph pwHash =
     (case (fn, ln, em, ph) of
        (Some f, Some l, Some e, Some p) \<Rightarrow>
          (if invalidPaths fn ln em ph pwHash \<noteq> [] then
             Inl (ValidationError (invalidPaths fn ln em ph pwHash))
           else if \<not> online d then Inl MongoError
           else if e \<in> set (map email (users d)) then Inl (DuplicateKey ''email'')
           else if p \<in> set (map mobilePhone (users d)) then Inl (DuplicateKey ''mobilePhone'')
           else
             (let newUser =
                    \<lparr>user_id = newObjectId (map user_id (users d)),
                     firstName = f, lastName = l, email = e, mobilePhone = p,
                     password = pwHash, accessToken = randomBytes rnd,
                     bookedTreatments = [], user_v = 0\<rparr>
              in Inr (d\<lparr>users := users d @ [newUser]\<rparr>, newUser)))
      | _ \<Rightarrow> Inl (ValidationError (invalidPaths fn ln em ph pwHash)))"

text \<open>
  \<^verbatim>\<open>res.status(s).json(b)\<close> on the response state: once a response has gone out, a
  second one throws and the client keeps the first.
\<close>

definition res_json :: "response option \<Rightarrow> response \<Rightarrow> error + response option" where
  "res_json res r = (case res of None \<Rightarrow> Inr (Some r) | Some _ \<Rightarrow> Inl HeadersSent)"

definition passwordRejected :: response where
  "passwordRejected =
     \<lparr>status = 400,
      body = JObj [(''success'', JBool False),
                   (''message'', JStr ''Password needs to be between 15 and 20 characters'')]\<rparr>"

definition created :: "user \<Rightarrow> response" where
  "created newUser =
     \<lparr>status = 201,
      body = JObj [(''success'', JBool True),
                   (''response'',
                    JObj [(''firstName'', JStr (firstName newUser)),
                          (''lastName'', JStr (lastName newUser)),
                          (''email'', JStr (email newUser)),
                          (''mobilePhone'', JNum (mobilePhone newUser)),
                          (''id'', JId (user_id newUser)),
                          (''accessToken'', JStr (accessToken newUser))])]\<rparr>"

definition notCreated :: "error \<Rightarrow> response" where
  "notCreated e =
     \<lparr>status = 400,
      body = JObj ([(''success'', JBool False), (''response'', JErr e),
                    (''message'', JStr ''Could not create user'')] @
                   (case e of ValidationError ps \<Rightarrow> [(''errors'', JArr (map JStr ps))] | _ \<Rightarrow> []))\<rparr>"

text \<open>
  \<^verbatim>\<open>
  app.post(PATHS.register, async (req, res) => {
    const { firstName, lastName, email, mobilePhone, password } = req.body;
    if (password.length < 15 || password.length > 20) {
      res.status(400).json({success: false, message: "Password needs to be ..."})
    }
    try {
      const salt = bcrypt.genSaltSync(10);
      const newUser = await new User({firstName, lastName, email, mobilePhone,
        password: bcrypt.hashSync(password, salt)}).save();
      res.status(201).json({success: true, response: {...}})
    } catch (e) {
      res.status(400).json({success: false, response: e, message: 'Could not create user',
        errors: e.errors});
    }
  });
  \<close>
  The length check sends its response and falls through to the \<^verbatim>\<open>try\<close> block. A missing
  password makes \<^verbatim>\<open>password.length\<close> throw before the \<^verbatim>\<open>try\<close>: the handler rejects and
  no response is sent. A throw inside the \<^verbatim>\<open>catch\<close> block is likewise unhandled.
\<close>

definition register_catch :: "response option \<Rightarrow> db \<Rightarrow> error \<Rightarrow> outcome" where
  "register_catch res d e =
     (case res_json res (notCreated e) of
        Inr res' \<Rightarrow> \<lparr>sent = res', store = d\<rparr>
      | Inl _ \<Rightarrow> \<lparr>sent = res, store = d\<rparr>)"

definition register :: "bcrypt \<Rightarrow> entropy \<Rightarrow> db \<Rightarrow> request \<Rightarrow> outcome" where
  "register lib rnd d req =
     (case r_password req of
        None \<Rightarrow> \<lparr>sent = None, store = d\<rparr>
      | Some pw \<Rightarrow>
          (let res = (if length pw < 15 \<or> length pw > 20 then Some passwordRejected else None);
               salt = genSaltSync rnd
           in case User_create d rnd (r_firstName req) (r_lastName req) (r_email req)
                     (r_mobilePhone req) (hashSync lib pw salt) of
                Inl e \<Rightarrow> register_catch res d e
              | Inr (d', newUser) \<Rightarrow>
                  (case res_json res (created newUser) of
                     Inr res' \<Rightarrow> \<lparr>sent = res', store = d'\<rparr>
                   | Inl e \<Rightarrow> register_catch res d' e)))"

section \<open>Login\<close>

text \<open>
  \<^verbatim>\<open>
  app.post(PATHS.login, async (req, res) => {
    const { email, password } = req.body;
    try {
      const user = await User.findOne({email: email})
      if (user && bcrypt.compareSync(password, user.password)) {
        res.status(200).json({success: true, response: {...}});
      } else {
        res.status(400).json({success: false, response: "Credentials do not match"});
      }
    } catch (e) { res.status(500).json({success: false, response: e}); }
  });
  \<close>
  \<^verbatim>\<open>compareSync\<close> throws when the password is missing; \<^verbatim>\<open>&&\<close> does not reach it when
  no user was found.
\<close>

definition loggedIn :: "user \<Rightarrow> response" where
  "loggedIn u =
     \<lparr>status = 200,
      body = JObj [(''success'', JBool True),
                   (''response'',
                    JObj [(''firstName'', JStr (firstName u)),
                          (''lastName'', JStr (lastName u)),
                          (''email'', JStr (email u)),
                          (''mobilePhone'', JNum (mobilePhone u)),
                          (''id'', JId (user_id u)),
                          (''accessToken'', JStr (accessToken u))])]\<rparr>"

definition credentialsDoNotMatch :: response where
  "credentialsDoNotMatch =
     \<lparr>status = 400,
      body = JObj [(''success'', JBool False), (''response'', JStr ''Credentials do not match'')]\<rparr>"

definition loginFailed :: "error \<Rightarrow> response" where
  "loginFailed e = \<lparr>status = 500, body = JObj [(''success'', JBool False), (''response'', JErr e)]\<rparr>"

definition login :: "bcrypt \<Rightarrow> db \<Rightarrow> request \<Rightarrow> outcome" where
  "login lib d req =
     (case User_findOne d (\<lambda>u. Some (email u) = r_email req) of
        Inl e \<Rightarrow> \<lparr>sent = Some (loginFailed e), store = d\<rparr>
      | Inr None \<Rightarrow> \<lparr>sent = Some credentialsDoNotMatch, store = d\<rparr>
      | Inr (Some u) \<Rightarrow>
          (case r_password req of
             None \<Rightarrow> \<lparr>sent = Some (loginFailed BcryptError), store = d\<rparr>
           | Some pw \<Rightarrow>
               (if compareSync lib pw (password u) then \<lparr>sent = Some (loggedIn u), store = d\<rparr>
                else \<lparr>sent = Some credentialsDoNotMatch, store = d\<rparr>)))"

section \<open>Seeding the treatment catalog\<close>

text \<open>
  \<^verbatim>\<open>
  const createTreatments = async () => {
    const treatments = [{ name: 'Haircut' }, { name: 'Hair Dye' },
                        { name: 'Haircut and Dye' }, { name: 'Hair styling'}];
    try {
      const existingTreatments = await Treatment.find();
      for (const treatmentData of treatments) {
        const existingTreatment = existingTreatments.find(
          (treatment) => treatment.name === treatmentData.name);
        if (!existingTreatment) {
          const treatment = new Treatment(treatmentData);
          await treatment.save();
        }
      }
    } catch (error) { console.error("Failed to create treatments", error); }
  };
  \<close>
  \<^verbatim>\<open>existingTreatments\<close> is read once, before the loop; the loop inserts into the
  collection.
\<close>

definition treatmentData :: "string list" where
  "treatmentData = [''Haircut'', ''Hair Dye'', ''Haircut and Dye'', ''Hair styling'']"

definition Treatment_save :: "treatment list \<Rightarrow> string \<Rightarrow> treatment list" where
  "Treatment_save ts n =
     ts @ [\<lparr>treatment_id = newObjectId (map treatment_id ts), treatment_name = Some n,
            treatment_v = 0\<rparr>]"

fun createLoop :: "treatment list \<Rightarrow> string list \<Rightarrow> treatment list \<Rightarrow> treatment list" where
  "createLoop existingTreatments [] ts = ts"
| "createLoop existingTreatments (n # ns) ts =
     (case find (\<lambda>t. treatment_name t = Some n) existingTreatments of
        None \<Rightarrow> createLoop existingTreatments ns (Treatment_save ts n)
      | Some _ \<Rightarrow> createLoop existingTreatments ns ts)"

definition createTreatments :: "db \<Rightarrow> db" where
  "createTreatments d =
     (if online d then d\<lparr>treatments := createLoop (treatments d) treatmentData (treatments d)\<rparr>
      else d)"

section \<open>Example data\<close>

definition alice :: user where
  "alice =
     \<lparr>user_id = 1, firstName = ''Alice'', lastName = ''Berg'', email = ''alice@example.com'',
      mobilePhone = 701234567, password = ''$2b$10$saltalice-secret-2023'', accessToken = ''a1b2c3'',
      bookedTreatments = [], user_v = 0\<rparr>"

definition haircut :: treatment where
  "haircut = \<lparr>treatment_id = 1, treatment_name = Some ''Haircut'', treatment_v = 0\<rparr>"

definition hairDye :: treatment where
  "hairDye = \<lparr>treatment_id = 2, treatment_name = Some ''Hair Dye'', treatment_v = 0\<rparr>"

definition salon :: db where
  "salon = \<lparr>users = [alice], treatments = [haircut, hairDye], online = True\<rparr>"

text \<open>The same store after Alice has booked the hair dye and then the haircut.\<close>

definition salonBooked :: db where
  "salonBooked =
     \<lparr>users = [alice\<lparr>bookedTreatments := [\<lparr>bt_id = 1, bt_treatment = 2\<rparr>,
                                            \<lparr>bt_id = 2, bt_treatment = 1\<rparr>],
                     user_v := 2\<rparr>],
      treatments = [haircut, hairDye], online = True\<rparr>"

definition anonymous :: request where
  "anonymous =
     \<lparr>authorization = None, r_firstName = None, r_lastName = None, r_email = None,
      r_mobilePhone = None, r_password = None, r_treatmentId = Missing,
      r_pickedDate = InvalidDate\<rparr>"

text \<open>A stand-in for bcrypt with a fixed salt, to run the handlers on concrete input.\<close>

definition example_bcrypt :: bcrypt where
  "example_bcrypt =
     \<lparr>hashSync = (\<lambda>pw salt. salt @ pw), compareSync = (\<lambda>pw h. h = ''$2b$10$salt'' @ pw)\<rparr>"

definition example_entropy :: entropy where
  "example_entropy = \<lparr>genSaltSync = ''$2b$10$salt'', randomBytes = ''d4e5f6''\<rparr>"

definition bodil :: request where
  "bodil =
     anonymous\<lparr>r_firstName := Some ''Bodil'', r_lastName := Some ''Nilsson'',
       r_email := Some ''bodil@example.com'', r_mobilePhone := Some 709876543,
       r_password := Some ''bodil-secret-2023''\<rparr>"

definition asAlice :: request where
  "asAlice = anonymous\<lparr>authorization := Some ''a1b2c3''\<rparr>"

section \<open>Fresh identifiers\<close>

lemma fold_max_ge: "a \<le> fold max ids (a::nat)"
  by (induction ids arbitrary: a) (auto intro: order_trans [OF max.cobounded2])

lemma fold_max_upper: "x \<in> set ids \<Longrightarrow> x \<le> fold max ids (a::nat)"
proof (induction ids arbitrary: a)
  case Nil
  then show ?case by simp
next
  case (Cons y ys)
  show ?case
  proof (cases "x = y")
    case True
    have "y \<le> max y a" by simp
    also have "\<dots> \<le> fold max ys (max y a)" by (rule fold_max_ge)
    finally show ?thesis using True by simp
  next
    case False
    with Cons show ?thesis by simp
  qed
qed

lemma newObjectId_fresh: "newObjectId ids \<notin> set ids"
proof
  assume "newObjectId ids \<in> set ids"
  then have "newObjectId ids \<le> fold max ids 0" by (rule fold_max_upper)
  then show False by (simp add: newObjectId_def)
qed

section \<open>Properties of the authentication middleware\<close>

lemma authenticateUser_no_match:
  assumes "\<forall>u \<in> set (users d). Some (accessToken u) \<noteq> authorization req"
  shows "authenticateUser d req = Inl (if online d then unauthenticated else authFailed MongoError)"
proof -
  from assms have "find (\<lambda>u. Some (accessToken u) = authorization req) (users d) = None"
    by (simp add: find_None_iff)
  then show ?thesis
    by (simp add: authenticateUser_def User_findOne_def)
qed

lemma authenticateUser_Inr:
  assumes "authenticateUser d req = Inr u"
  shows "online d" and "find (\<lambda>u. Some (accessToken u) = authorization req) (users d) = Some u"
  using assms
  by (auto simp: authenticateUser_def User_findOne_def split: if_splits option.splits)

text \<open>
  Claim C1. With the store answering, a request to book-treatment, booked-treatments
  or user-info whose \<^verbatim>\<open>Authorization\<close> header is missing or equals no user's stored
  \<^verbatim>\<open>accessToken\<close> is answered by the middleware: the response is 401 with
  \<^verbatim>\<open>success: false\<close> and \<^verbatim>\<open>loggedOut: true\<close>, so neither 200 nor 500, and the store is
  left as it was.
\<close>

theorem authenticateUser_unknown_token:
  assumes "online d"
      and "\<forall>u \<in> set (users d). Some (accessToken u) \<noteq> authorization req"
  shows "sent (bookTreatment d req) = Some unauthenticated
       \<and> sent (bookedTreatment d req) = Some unauthenticated
       \<and> sent (userInfo d req) = Some unauthenticated
       \<and> store (bookTreatment d req) = d
       \<and> store (bookedTreatment d req) = d
       \<and> store (userInfo d req) = d
       \<and> status unauthenticated = 401
       \<and> status unauthenticated \<noteq> 200
       \<and> status unauthenticated \<noteq> 500
       \<and> body unauthenticated =
           JObj [(''success'', JBool False), (''response'', JStr ''Please log in''),
                 (''loggedOut'', JBool True)]"
  using authenticateUser_no_match [OF assms(2)] assms(1)
  by (simp add: bookTreatment_def bookedTreatment_def userInfo_def unauthenticated_def)

theorem authenticateUser_unknown_token_witness:
  "map accessToken (users salon) = [''a1b2c3'']
   \<and> online salon
   \<and> authorization (anonymous\<lparr>authorization := Some ''garbage''\<rparr>) = Some ''garbage''
   \<and> authorization anonymous = None
   \<and> sent (userInfo salon (anonymous\<lparr>authorization := Some ''garbage''\<rparr>)) = Some unauthenticated
   \<and> sent (bookTreatment salon (anonymous\<lparr>authorization := Some ''garbage''\<rparr>)) = Some unauthenticated
   \<and> sent (bookedTreatment salon (anonymous\<lparr>authorization := Some ''garbage''\<rparr>)) = Some unauthenticated
   \<and> sent (userInfo salon anonymous) = Some unauthenticated
   \<and> sent (bookTreatment salon anonymous) = Some unauthenticated
   \<and> sent (bookedTreatment salon anonymous) = Some unauthenticated"
proof -
  have on: "online salon" and toks: "map accessToken (users salon) = [''a1b2c3'']"
    by (simp_all add: salon_def alice_def)
  have g: "\<forall>u \<in> set (users salon).
             Some (accessToken u) \<noteq> authorization (anonymous\<lparr>authorization := Some ''garbage''\<rparr>)"
    by (simp add: salon_def alice_def anonymous_def)
  have m: "\<forall>u \<in> set (users salon). Some (accessToken u) \<noteq> authorization anonymous"
    by (simp add: salon_def alice_def anonymous_def)
  have "authorization anonymous = None" by (simp add: anonymous_def)
  with authenticateUser_unknown_token [OF on g] authenticateUser_unknown_token [OF on m] on toks
  show ?thesis by simp
qed

section \<open>Properties of catalog seeding\<close>

lemma createLoop_mono: "set ts \<subseteq> set (createLoop ex ns ts)"
proof (induction ns arbitrary: ts)
  case Nil
  then show ?case by simp
next
  case (Cons n ns)
  have "set ts \<subseteq> set (Treatment_save ts n)" by (auto simp: Treatment_save_def)
  with Cons [of "Treatment_save ts n"] Cons [of ts] show ?case
    by (auto split: option.splits)
qed

lemma createLoop_present:
  assumes "set ex \<subseteq> set ts" and "n \<in> set ns"
  shows "\<exists>t \<in> set (createLoop ex ns ts). treatment_name t = Some n"
  using assms
proof (induction ns arbitrary: ts)
  case Nil
  then show ?case by simp
next
  case (Cons m ms)
  show ?case
  proof (cases "find (\<lambda>t. treatment_name t = Some m) ex")
    case None
    have sub: "set ex \<subseteq> set (Treatment_save ts m)"
      using Cons.prems(1) by (auto simp: Treatment_save_def)
    show ?thesis
    proof (cases "n = m")
      case True
      have "\<exists>t \<in> set (Treatment_save ts m). treatment_name t = Some m"
        by (simp add: Treatment_save_def)
      with createLoop_mono [of "Treatment_save ts m" ex ms] None True show ?thesis
        by auto
    next
      case False
      with Cons.prems have "n \<in> set ms" by simp
      from Cons.IH [OF sub this] None show ?thesis by simp
    qed
  next
    case (Some t)
    then have t: "t \<in> set ex" "treatment_name t = Some m"
      by (auto simp: find_Some_iff)
    show ?thesis
    proof (cases "n = m")
      case True
      with t Cons.prems(1) createLoop_mono [of ts ex ms] Some show ?thesis
        by auto
    next
      case False
      with Cons.prems have "n \<in> set ms" by simp
      from Cons.IH [OF Cons.prems(1) this] Some show ?thesis by simp
    qed
  qed
qed

lemma createLoop_nothing_missing:
  "\<forall>n \<in> set ns. \<exists>t \<in> set ex. treatment_name t = Some n \<Longrightarrow> createLoop ex ns ts = ts"
proof (induction ns)
  case Nil
  then show ?case by simp
next
  case (Cons n ns)
  from Cons.prems have "find (\<lambda>t. treatment_name t = Some n) ex \<noteq> None"
    by (auto simp: find_None_iff)
  moreover from Cons have "createLoop ex ns ts = ts" by simp
  ultimately show ?case by (auto split: option.splits)
qed

lemma createTreatments_empty_catalog:
  "map treatment_name (treatments (createTreatments \<lparr>users = [], treatments = [], online = True\<rparr>))
     = [Some ''Haircut'', Some ''Hair Dye'', Some ''Haircut and Dye'', Some ''Hair styling'']"
  by (simp add: createTreatments_def treatmentData_def Treatment_save_def)

text \<open>A catalog without two entries of one name has none after seeding.\<close>

lemma createLoop_distinct:
  assumes "distinct (map treatment_name ts)" and "distinct ns" and "set ex \<subseteq> set ts"
      and "\<forall>n \<in> set ns. Some n \<in> set (map treatment_name ts) \<longrightarrow> Some n \<in> set (map treatment_name ex)"
  shows "distinct (map treatment_name (createLoop ex ns ts))"
  using assms
proof (induction ns arbitrary: ts)
  case Nil
  then show ?case by simp
next
  case (Cons n ns)
  show ?case
  proof (cases "find (\<lambda>t. treatment_name t = Some n) ex")
    case None
    then have "Some n \<notin> set (map treatment_name ex)"
      by (auto simp: find_None_iff)
    with Cons.prems(4) have fresh: "Some n \<notin> set (map treatment_name ts)" by auto
    have 1: "distinct (map treatment_name (Treatment_save ts n))"
      using Cons.prems(1) fresh by (simp add: Treatment_save_def)
    have 2: "distinct ns" using Cons.prems(2) by simp
    have 3: "set ex \<subseteq> set (Treatment_save ts n)"
      using Cons.prems(3) by (auto simp: Treatment_save_def)
    have 4: "\<forall>m \<in> set ns. Some m \<in> set (map treatment_name (Treatment_save ts n))
               \<longrightarrow> Some m \<in> set (map treatment_name ex)"
      using Cons.prems(2,4) by (auto simp: Treatment_save_def)
    from Cons.IH [OF 1 2 3 4] None show ?thesis by simp
  next
    case (Some t)
    have "distinct (map treatment_name (createLoop ex ns ts))"
      using Cons.prems by (intro Cons.IH) auto
    with Some show ?thesis by simp
  qed
qed

lemma createTreatments_no_new_duplicates:
  assumes "distinct (map treatment_name (treatments d))"
  shows "distinct (map treatment_name (treatments (createTreatments d)))"
proof (cases "online d")
  case True
  have "distinct (map treatment_name (createLoop (treatments d) treatmentData (treatments d)))"
    using assms by (intro createLoop_distinct) (simp_all add: treatmentData_def)
  with True show ?thesis by (simp add: createTreatments_def)
next
  case False
  with assms show ?thesis by (simp add: createTreatments_def)
qed

text \<open>
  Claim C4. Running \<^verbatim>\<open>createTreatments\<close> a second time changes nothing: for every
  store, the catalog after two runs is the catalog after one run, so the second run
  creates no entry.
\<close>

theorem createTreatments_idempotent:
  "createTreatments (createTreatments d) = createTreatments d"
proof (cases "online d")
  case False
  then show ?thesis by (simp add: createTreatments_def)
next
  case True
  let ?ts = "createLoop (treatments d) treatmentData (treatments d)"
  have "\<forall>n \<in> set treatmentData. \<exists>t \<in> set ?ts. treatment_name t = Some n"
    using createLoop_present [of "treatments d" "treatments d"] by blast
  then have "createLoop ?ts treatmentData ?ts = ?ts"
    by (rule createLoop_nothing_missing)
  with True show ?thesis by (simp add: createTreatments_def)
qed

section \<open>Properties of user info\<close>

text \<open>
  Claim C10. For an authenticated \<^verbatim>\<open>GET /userinfo\<close> the response is 200 and its
  \<^verbatim>\<open>user\<close> key holds every path of the caller's stored document: the bcrypt hash under
  \<^verbatim>\<open>password\<close>, the \<^verbatim>\<open>accessToken\<close>, each record of the \<^verbatim>\<open>bookedTreatments\<close> list with
  its \<^verbatim>\<open>_id\<close> and \<^verbatim>\<open>treatment\<close>, and the version key. The store is unchanged.
\<close>

theorem userInfo_returns_stored_document:
  assumes "authenticateUser d req = Inr u"
  shows "sent (userInfo d req) =
           Some \<lparr>status = 200,
                 body = JObj [(''success'', JBool True),
                              (''message'', JStr ''This is your user information''),
                              (''user'',
                               JObj [(''_id'', JId (user_id u)),
                                     (''firstName'', JStr (firstName u)),
                                     (''lastName'', JStr (lastName u)),
                                     (''email'', JStr (email u)),
                                     (''mobilePhone'', JNum (mobilePhone u)),
                                     (''password'', JStr (password u)),
                                     (''accessToken'', JStr (accessToken u)),
                                     (''bookedTreatments'',
                                      JArr (map (\<lambda>b. JObj [(''_id'', JId (bt_id b)),
                                                             (''treatment'', JId (bt_treatment b))])
                                              (bookedTreatments u))),
                                     (''__v'', JNum (int (user_v u)))])]\<rparr>
       \<and> find (\<lambda>u. Some (accessToken u) = authorization req) (users d) = Some u
       \<and> store (userInfo d req) = d"
proof -
  have "map bookedTreatment_toJSON (bookedTreatments u) =
          map (\<lambda>b. JObj [(''_id'', JId (bt_id b)), (''treatment'', JId (bt_treatment b))])
            (bookedTreatments u)"
    by (simp add: bookedTreatment_toJSON_def)
  with assms authenticateUser_Inr(2) [OF assms] show ?thesis
    by (simp add: userInfo_def user_toJSON_def)
qed

theorem userInfo_returns_stored_document_witness:
  "map accessToken (users salonBooked) = [''a1b2c3'']
   \<and> authorization asAlice = Some ''a1b2c3''
   \<and> sent (userInfo salonBooked asAlice) =
       Some \<lparr>status = 200,
             body = JObj [(''success'', JBool True),
                          (''message'', JStr ''This is your user information''),
                          (''user'',
                           JObj [(''_id'', JId 1),
                                 (''firstName'', JStr ''Alice''),
                                 (''lastName'', JStr ''Berg''),
                                 (''email'', JStr ''alice@example.com''),
                                 (''mobilePhone'', JNum 701234567),
                                 (''password'', JStr ''$2b$10$saltalice-secret-2023''),
                                 (''accessToken'', JStr ''a1b2c3''),
                                 (''bookedTreatments'',
                                  JArr [JObj [(''_id'', JId 1), (''treatment'', JId 2)],
                                        JObj [(''_id'', JId 2), (''treatment'', JId 1)]]),
                                 (''__v'', JNum 2)])]\<rparr>"
proof -
  let ?u = "alice\<lparr>bookedTreatments := [\<lparr>bt_id = 1, bt_treatment = 2\<rparr>,
                                      \<lparr>bt_id = 2, bt_treatment = 1\<rparr>],
                  user_v := 2\<rparr>"
  have h: "authenticateUser salonBooked asAlice = Inr ?u"
    by (simp add: authenticateUser_def User_findOne_def salonBooked_def alice_def asAlice_def
        anonymous_def)
  have t: "map accessToken (users salonBooked) = [''a1b2c3'']"
      "authorization asAlice = Some ''a1b2c3''"
    by (simp_all add: salonBooked_def alice_def asAlice_def anonymous_def)
  from userInfo_returns_stored_document [OF h] t show ?thesis
    by (simp add: alice_def)
qed

section \<open>Properties of booking\<close>





lemma find_id_replaceUser:
  assumes "find (\<lambda>x. user_id x = user_id u') xs = Some u"
  shows "find (\<lambda>x. user_id x = user_id u') (replaceUser u' xs) = Some u'"
  using assms by (induction xs) (auto split: if_splits)

lemma find_token_replaceUser:
  assumes "find (\<lambda>x. user_id x = user_id u') xs = Some u"
      and "accessToken u' = accessToken u"
  shows "map_option user_id (find (\<lambda>x. Some (accessToken x) = h) (replaceUser u' xs))
       = map_option user_id (find (\<lambda>x. Some (accessToken x) = h) xs)"
  using assms by (induction xs) (auto split: if_splits)

text \<open>A valid booking: the caller is authenticated and the treatment is in the catalog.\<close>

lemma bookTreatment_valid:
  assumes a: "authenticateUser d req = Inr u0"
      and i: "r_treatmentId req = Id i"
      and t: "i \<in> set (map treatment_id (treatments d))"
  shows "\<exists>u. find (\<lambda>x. user_id x = user_id u0) (users d) = Some u
           \<and> sent (bookTreatment d req) = Some (booked \<lparr>treatment = i, bookedDate = r_pickedDate req\<rparr>)
           \<and> store (bookTreatment d req) =
               d\<lparr>users := replaceUser
                    (u\<lparr>bookedTreatments :=
                         push (bookedTreatments u) \<lparr>treatment = i, bookedDate = r_pickedDate req\<rparr>,
                       user_v := Suc (user_v u)\<rparr>)
                    (users d)\<rparr>"
proof -
  have on: "online d" using a by (rule authenticateUser_Inr(1))
  from authenticateUser_Inr(2) [OF a] have "u0 \<in> set (users d)"
    by (auto simp: find_Some_iff)
  then obtain u where u: "find (\<lambda>x. user_id x = user_id u0) (users d) = Some u"
    by (cases "find (\<lambda>x. user_id x = user_id u0) (users d)") (auto simp: find_None_iff)
  from t obtain t' where t': "find (\<lambda>x. treatment_id x = i) (treatments d) = Some t'"
    by (cases "find (\<lambda>x. treatment_id x = i) (treatments d)") (auto simp: find_None_iff)
  then have ti: "treatment_id t' = i" by (auto simp: find_Some_iff)
  from a on i u t' ti show ?thesis
    by (simp add: bookTreatment_def bookTreatment_handler_def Promise_all_def User_findById_def
        User_findOne_def Treatment_findById_def User_save_def Let_def)
qed

text \<open>
  Claim C9. Two successive valid book-treatment requests by one user both succeed;
  afterwards the user's stored \<^verbatim>\<open>bookedTreatments\<close> is the old list followed by exactly
  two records, the first for the first request's treatment and the second for the
  second's, and the treatment catalog is the same as before.
\<close>

theorem two_bookings_appended_in_order:
  assumes a: "authenticateUser d req1 = Inr u0"
      and same: "authorization req2 = authorization req1"
      and i1: "r_treatmentId req1 = Id t1" "t1 \<in> set (map treatment_id (treatments d))"
      and i2: "r_treatmentId req2 = Id t2" "t2 \<in> set (map treatment_id (treatments d))"
  shows "\<exists>u b1 b2.
           find (\<lambda>x. user_id x = user_id u0) (users d) = Some u
         \<and> sent (bookTreatment d req1) = Some (booked \<lparr>treatment = t1, bookedDate = r_pickedDate req1\<rparr>)
         \<and> sent (bookTreatment (store (bookTreatment d req1)) req2)
             = Some (booked \<lparr>treatment = t2, bookedDate = r_pickedDate req2\<rparr>)
         \<and> map_option bookedTreatments
             (find (\<lambda>x. user_id x = user_id u0)
                (users (store (bookTreatment (store (bookTreatment d req1)) req2))))
             = Some (bookedTreatments u @ [b1, b2])
         \<and> bt_treatment b1 = t1 \<and> bt_treatment b2 = t2
         \<and> treatments (store (bookTreatment d req1)) = treatments d
         \<and> treatments (store (bookTreatment (store (bookTreatment d req1)) req2)) = treatments d"
proof -
  let ?d1 = "store (bookTreatment d req1)"
  let ?d2 = "store (bookTreatment ?d1 req2)"
  let ?b1 = "\<lparr>treatment = t1, bookedDate = r_pickedDate req1\<rparr>"
  let ?b2 = "\<lparr>treatment = t2, bookedDate = r_pickedDate req2\<rparr>"
  from bookTreatment_valid [OF a i1] obtain u where
    u: "find (\<lambda>x. user_id x = user_id u0) (users d) = Some u"
    and s1: "sent (bookTreatment d req1) = Some (booked ?b1)"
    and d1: "?d1 = d\<lparr>users := replaceUser
                 (u\<lparr>bookedTreatments := push (bookedTreatments u) ?b1, user_v := Suc (user_v u)\<rparr>)
                 (users d)\<rparr>"
    by (elim exE conjE) (rule that; assumption)
  define u1 where
    "u1 = u\<lparr>bookedTreatments := push (bookedTreatments u) ?b1, user_v := Suc (user_v u)\<rparr>"
  from u have idu: "user_id u = user_id u0" by (auto simp: find_Some_iff)
  have id1: "user_id u1 = user_id u0" and tok1: "accessToken u1 = accessToken u"
    using idu by (simp_all add: u1_def)
  have users1: "users ?d1 = replaceUser u1 (users d)" and tr1: "treatments ?d1 = treatments d"
    and on1: "online ?d1 = online d"
    using d1 by (simp_all add: u1_def)
  have fu: "find (\<lambda>x. user_id x = user_id u1) (users d) = Some u"
    using u id1 by simp
  have "map_option user_id (find (\<lambda>x. Some (accessToken x) = authorization req2) (users ?d1))
      = map_option user_id (find (\<lambda>x. Some (accessToken x) = authorization req2) (users d))"
    unfolding users1 using fu tok1 by (rule find_token_replaceUser)
  with authenticateUser_Inr(2) [OF a] same
  obtain v0 where fv0: "find (\<lambda>x. Some (accessToken x) = authorization req2) (users ?d1) = Some v0"
    and idv0: "user_id v0 = user_id u0"
    by auto
  have v0: "authenticateUser ?d1 req2 = Inr v0"
    using fv0 on1 authenticateUser_Inr(1) [OF a]
    by (simp add: authenticateUser_def User_findOne_def)
  have i2': "t2 \<in> set (map treatment_id (treatments ?d1))" using i2(2) tr1 by simp
  from bookTreatment_valid [OF v0 i2(1) i2'] obtain v where
    v: "find (\<lambda>x. user_id x = user_id v0) (users ?d1) = Some v"
    and s2: "sent (bookTreatment ?d1 req2) = Some (booked ?b2)"
    and d2: "?d2 = ?d1\<lparr>users := replaceUser
                 (v\<lparr>bookedTreatments := push (bookedTreatments v) ?b2, user_v := Suc (user_v v)\<rparr>)
                 (users ?d1)\<rparr>"
    by (elim exE conjE) (rule that; assumption)
  have f1: "find (\<lambda>x. user_id x = user_id u1) (users ?d1) = Some u1"
    unfolding users1 using fu by (rule find_id_replaceUser)
  with v idv0 id1 have vu1: "v = u1" by simp
  define u2 where
    "u2 = u1\<lparr>bookedTreatments := push (bookedTreatments u1) ?b2, user_v := Suc (user_v u1)\<rparr>"
  have id2: "user_id u2 = user_id u0" using id1 by (simp add: u2_def)
  have users2: "users ?d2 = replaceUser u2 (users ?d1)"
    using d2 vu1 by (simp add: u2_def)
  have "find (\<lambda>x. user_id x = user_id u2) (users ?d1) = Some u1"
    using f1 id1 id2 by simp
  then have "find (\<lambda>x. user_id x = user_id u2) (users ?d2) = Some u2"
    unfolding users2 by (rule find_id_replaceUser)
  then have f2: "find (\<lambda>x. user_id x = user_id u0) (users ?d2) = Some u2"
    using id2 by simp
  have bts: "bookedTreatments u2 =
               bookedTreatments u @
                 [\<lparr>bt_id = newObjectId (map bt_id (bookedTreatments u)), bt_treatment = t1\<rparr>,
                  \<lparr>bt_id = newObjectId (map bt_id (bookedTreatments u1)), bt_treatment = t2\<rparr>]"
    by (simp add: u2_def u1_def push_def)
  have tr: "treatments ?d2 = treatments d"
    using d1 d2 by simp
  from u s1 s2 f2 bts tr tr1 show ?thesis
    by (intro exI [of _ u]
        exI [of _ "\<lparr>bt_id = newObjectId (map bt_id (bookedTreatments u)), bt_treatment = t1\<rparr>"]
        exI [of _ "\<lparr>bt_id = newObjectId (map bt_id (bookedTreatments u1)), bt_treatment = t2\<rparr>"])
      simp
qed

theorem two_bookings_appended_in_order_witness:
  "authenticateUser salon (asAlice\<lparr>r_treatmentId := Id 1\<rparr>) = Inr alice
   \<and> map treatment_id (treatments salon) = [1, 2]
   \<and> map bookedTreatments
        (users (store (bookTreatment (store (bookTreatment salon (asAlice\<lparr>r_treatmentId := Id 1\<rparr>)))
                        (asAlice\<lparr>r_treatmentId := Id 2\<rparr>))))
       = [[\<lparr>bt_id = 1, bt_treatment = 1\<rparr>, \<lparr>bt_id = 2, bt_treatment = 2\<rparr>]]
   \<and> treatments (store (bookTreatment (store (bookTreatment salon (asAlice\<lparr>r_treatmentId := Id 1\<rparr>)))
                        (asAlice\<lparr>r_treatmentId := Id 2\<rparr>)))
       = treatments salon"
proof -
  let ?r1 = "asAlice\<lparr>r_treatmentId := Id 1\<rparr>"
  let ?r2 = "asAlice\<lparr>r_treatmentId := Id 2\<rparr>"
  have a: "authenticateUser salon ?r1 = Inr alice"
    by (simp add: authenticateUser_def User_findOne_def salon_def alice_def asAlice_def
        anonymous_def)
  have ids: "map treatment_id (treatments salon) = [1, 2]"
    by (simp add: salon_def haircut_def hairDye_def)
  have same: "authorization ?r2 = authorization ?r1" by simp
  have i1: "r_treatmentId ?r1 = Id 1" "1 \<in> set (map treatment_id (treatments salon))"
    and i2: "r_treatmentId ?r2 = Id 2" "2 \<in> set (map treatment_id (treatments salon))"
    by (simp_all add: ids)
  from two_bookings_appended_in_order [OF a same i1 i2]
  obtain u b1 b2 where
    u: "find (\<lambda>x. user_id x = user_id alice) (users salon) = Some u"
    and s1: "sent (bookTreatment salon ?r1) = Some (booked \<lparr>treatment = 1, bookedDate = r_pickedDate ?r1\<rparr>)"
    and bts: "map_option bookedTreatments
             (find (\<lambda>x. user_id x = user_id alice)
                (users (store (bookTreatment (store (bookTreatment salon ?r1)) ?r2))))
             = Some (bookedTreatments u @ [b1, b2])"
    and tr: "treatments (store (bookTreatment (store (bookTreatment salon ?r1)) ?r2)) = treatments salon"
    by (elim exE conjE) (rule that; assumption)
  have d1: "users (store (bookTreatment salon ?r1)) =
              [alice\<lparr>bookedTreatments := [\<lparr>bt_id = 1, bt_treatment = 1\<rparr>], user_v := 1\<rparr>]"
    by (simp add: bookTreatment_def bookTreatment_handler_def authenticateUser_def Promise_all_def
      User_findById_def User_findOne_def Treatment_findById_def User_save_def push_def
      asAlice_def anonymous_def salon_def alice_def haircut_def hairDye_def newObjectId_def Let_def)
  have on1: "online (store (bookTreatment salon ?r1))"
      and tr1: "treatments (store (bookTreatment salon ?r1)) = [haircut, hairDye]"
    by (simp_all add: bookTreatment_def bookTreatment_handler_def authenticateUser_def Promise_all_def
      User_findById_def User_findOne_def Treatment_findById_def User_save_def push_def
      asAlice_def anonymous_def salon_def alice_def haircut_def hairDye_def newObjectId_def Let_def)
  have d2: "map bookedTreatments (users (store (bookTreatment (store (bookTreatment salon ?r1)) ?r2)))
       = [[\<lparr>bt_id = 1, bt_treatment = 1\<rparr>, \<lparr>bt_id = 2, bt_treatment = 2\<rparr>]]"
    using d1 on1 tr1
    by (simp add: bookTreatment_def bookTreatment_handler_def authenticateUser_def Promise_all_def
      User_findById_def User_findOne_def Treatment_findById_def User_save_def push_def
      asAlice_def anonymous_def alice_def haircut_def hairDye_def newObjectId_def Let_def)
  from a ids d2 tr show ?thesis by simp
qed

text \<open>
  The plain object the handler answers with and the subdocument it stores never
  serialise to the same JSON: the first has \<^verbatim>\<open>bookedDate\<close>, the second has \<^verbatim>\<open>_id\<close>.
\<close>

lemma booking_toJSON_not_persisted: "booking_toJSON b \<noteq> bookedTreatment_toJSON bt"
  by (simp add: booking_toJSON_def bookedTreatment_toJSON_def)

text \<open>
  Claim C6 at a concrete request. Alice books treatment 1 for a picked date: the
  \<^verbatim>\<open>booking\<close> of the 200 response carries \<^verbatim>\<open>treatment\<close> and \<^verbatim>\<open>bookedDate\<close>, and the
  record appended to her stored \<^verbatim>\<open>bookedTreatments\<close> carries \<^verbatim>\<open>_id\<close> and \<^verbatim>\<open>treatment\<close>:
  the picked date is not persisted.
\<close>

theorem bookTreatment_response_differs_from_record:
  "sent (bookTreatment salon (asAlice\<lparr>r_treatmentId := Id 1, r_pickedDate := Date 1686816000000\<rparr>))
     = Some (booked \<lparr>treatment = 1, bookedDate = Date 1686816000000\<rparr>)
   \<and> field (body (booked \<lparr>treatment = 1, bookedDate = Date 1686816000000\<rparr>)) ''booking''
     = Some (JObj [(''treatment'', JId 1), (''bookedDate'', JDate (Date 1686816000000))])
   \<and> map bookedTreatments
       (users (store (bookTreatment salon (asAlice\<lparr>r_treatmentId := Id 1, r_pickedDate := Date 1686816000000\<rparr>))))
     = [[\<lparr>bt_id = 1, bt_treatment = 1\<rparr>]]
   \<and> bookedTreatment_toJSON \<lparr>bt_id = 1, bt_treatment = 1\<rparr>
     = JObj [(''_id'', JId 1), (''treatment'', JId 1)]"
  by (simp add: bookTreatment_def bookTreatment_handler_def authenticateUser_def Promise_all_def
      User_findById_def User_findOne_def Treatment_findById_def User_save_def push_def booked_def
      booking_toJSON_def bookedTreatment_toJSON_def field_def asAlice_def anonymous_def salon_def
      alice_def haircut_def hairDye_def newObjectId_def Let_def)

section \<open>Properties of login\<close>

lemma login_200:
  assumes "sent (login lib d req) = Some r" and "status r = 200"
  shows "\<exists>u pw. find (\<lambda>u. Some (email u) = r_email req) (users d) = Some u
           \<and> r_password req = Some pw \<and> compareSync lib pw (password u) \<and> r = loggedIn u"
  using assms
  by (auto simp: login_def User_findOne_def credentialsDoNotMatch_def loginFailed_def
      split: if_splits option.splits)

lemma login_store: "store (login lib d req) = d"
  by (simp add: login_def User_findOne_def split: option.splits)

text \<open>
  When the first request carries a password string, a registered email with a password
  that does not verify and an email no user has get the same response from the same
  store, and neither changes the store.
\<close>

lemma login_wrong_password_or_unknown_email:
  assumes "\<exists>u \<in> set (users d). Some (email u) = r_email req1"
      and "r_password req1 = Some pw"
      and "\<forall>u \<in> set (users d). Some (email u) = r_email req1 \<longrightarrow> \<not> compareSync lib pw (password u)"
      and "\<forall>u \<in> set (users d). Some (email u) \<noteq> r_email req2"
  shows "sent (login lib d req1) = sent (login lib d req2)
       \<and> sent (login lib d req1) = Some (if online d then credentialsDoNotMatch else loginFailed MongoError)
       \<and> store (login lib d req1) = d \<and> store (login lib d req2) = d"
proof -
  from assms(4) have n: "find (\<lambda>u. Some (email u) = r_email req2) (users d) = None"
    by (simp add: find_None_iff)
  from assms(1) obtain u where u: "find (\<lambda>u. Some (email u) = r_email req1) (users d) = Some u"
    by (cases "find (\<lambda>u. Some (email u) = r_email req1) (users d)") (auto simp: find_None_iff)
  then have "u \<in> set (users d)" "Some (email u) = r_email req1"
    by (auto simp: find_Some_iff)
  with assms(3) have "\<not> compareSync lib pw (password u)" by blast
  with n u assms(2) show ?thesis
    by (simp add: login_def User_findOne_def)
qed

text \<open>
  The handler reaches \<^verbatim>\<open>compareSync\<close> only when a user was found. A request without a
  password makes it throw there, so a registered email is answered by the \<^verbatim>\<open>catch\<close>
  block and an unregistered one by the \<^verbatim>\<open>else\<close> branch.
\<close>

lemma login_without_password:
  assumes "online d" and "r_password req = None"
  shows "sent (login lib d req) =
           Some (case find (\<lambda>u. Some (email u) = r_email req) (users d) of
                   None \<Rightarrow> credentialsDoNotMatch
                 | Some u \<Rightarrow> loginFailed BcryptError)"
    and "credentialsDoNotMatch \<noteq> loginFailed BcryptError"
  using assms
  by (simp_all add: login_def User_findOne_def credentialsDoNotMatch_def loginFailed_def
      split: option.splits)

text \<open>
  Claim C5 at a concrete pair of requests, neither carrying a password. The login for
  Alice's registered email is answered with 500 and the thrown error; the login for an
  email no user has is answered with 400 and \<^verbatim>\<open>Credentials do not match\<close>. The two
  responses differ in status and body, so the caller learns which email is registered.
\<close>

theorem login_missing_password_distinguishes:
  "map email (users salon) = [''alice@example.com'']
   \<and> sent (login example_bcrypt salon (anonymous\<lparr>r_email := Some ''alice@example.com''\<rparr>))
       = Some \<lparr>status = 500, body = JObj [(''success'', JBool False), (''response'', JErr BcryptError)]\<rparr>
   \<and> sent (login example_bcrypt salon (anonymous\<lparr>r_email := Some ''nobody@example.com''\<rparr>))
       = Some \<lparr>status = 400,
               body = JObj [(''success'', JBool False), (''response'', JStr ''Credentials do not match'')]\<rparr>"
  by (simp add: login_def User_findOne_def loginFailed_def credentialsDoNotMatch_def salon_def
      alice_def anonymous_def)

text \<open>
  Claim C8. A login answered with 200 found a stored user by email, its password
  verified, the \<^verbatim>\<open>accessToken\<close> in the response is that user's stored token, and the
  store after the login is the store before it.
\<close>

theorem login_success_returns_stored_token:
  assumes "sent (login lib d req) = Some r" and "status r = 200"
  shows "\<exists>u pw. find (\<lambda>u. Some (email u) = r_email req) (users d) = Some u
           \<and> r_password req = Some pw \<and> compareSync lib pw (password u)
           \<and> field (body r) ''response'' =
               Some (JObj [(''firstName'', JStr (firstName u)),
                          (''lastName'', JStr (lastName u)),
                          (''email'', JStr (email u)),
                          (''mobilePhone'', JNum (mobilePhone u)),
                          (''id'', JId (user_id u)),
                          (''accessToken'', JStr (accessToken u))])
           \<and> store (login lib d req) = d"
proof -
  from login_200 [OF assms] obtain u pw where
    "find (\<lambda>u. Some (email u) = r_email req) (users d) = Some u"
    "r_password req = Some pw" "compareSync lib pw (password u)" "r = loggedIn u"
    by blast
  then show ?thesis
    by (auto simp: loggedIn_def field_def login_store)
qed

theorem login_success_returns_stored_token_witness:
  "sent (login example_bcrypt salon
      (anonymous\<lparr>r_email := Some ''alice@example.com'', r_password := Some ''alice-secret-2023''\<rparr>))
     = Some (loggedIn alice)
   \<and> status (loggedIn alice) = 200
   \<and> accessToken alice = ''a1b2c3''
   \<and> store (login example_bcrypt salon
      (anonymous\<lparr>r_email := Some ''alice@example.com'', r_password := Some ''alice-secret-2023''\<rparr>))
     = salon"
proof -
  let ?r = "anonymous\<lparr>r_email := Some ''alice@example.com'', r_password := Some ''alice-secret-2023''\<rparr>"
  have s: "sent (login example_bcrypt salon ?r) = Some (loggedIn alice)"
    by (simp add: login_def User_findOne_def salon_def alice_def example_bcrypt_def anonymous_def)
  have st: "status (loggedIn alice) = 200" by (simp add: loggedIn_def)
  from login_success_returns_stored_token [OF s st]
  have "store (login example_bcrypt salon ?r) = salon" by blast
  with s st show ?thesis by (simp add: alice_def)
qed

section \<open>Properties of registration\<close>

lemma User_create_Inr:
  assumes "User_create d rnd fn ln em ph h = Inr (d', u)"
  shows "\<exists>f l e p. fn = Some f \<and> ln = Some l \<and> em = Some e \<and> ph = Some p
           \<and> u = \<lparr>user_id = newObjectId (map user_id (users d)),
                    firstName = f, lastName = l, email = e, mobilePhone = p,
                    password = h, accessToken = randomBytes rnd, bookedTreatments = [],
                    user_v = 0\<rparr>
           \<and> d' = d\<lparr>users := users d @ [u]\<rparr>
           \<and> online d \<and> e \<notin> set (map email (users d)) \<and> p \<notin> set (map mobilePhone (users d))
           \<and> invalidPaths fn ln em ph h = []"
  using assms
  by (auto simp: User_create_def Let_def split: option.splits if_splits)

lemma User_create_valid:
  assumes "validName (Some f)" "validName (Some l)" "e \<noteq> []" "h \<noteq> []" "online d"
      and "e \<notin> set (map email (users d))" "p \<notin> set (map mobilePhone (users d))"
  shows "User_create d rnd (Some f) (Some l) (Some e) (Some p) h =
           Inr (d\<lparr>users := users d @
                    [\<lparr>user_id = newObjectId (map user_id (users d)),
                      firstName = f, lastName = l, email = e, mobilePhone = p,
                      password = h, accessToken = randomBytes rnd, bookedTreatments = [],
                    user_v = 0\<rparr>]\<rparr>,
                \<lparr>user_id = newObjectId (map user_id (users d)),
                 firstName = f, lastName = l, email = e, mobilePhone = p,
                 password = h, accessToken = randomBytes rnd, bookedTreatments = [],
                    user_v = 0\<rparr>)"
  using assms by (simp add: User_create_def invalidPaths_def Let_def)

lemma register_201:
  assumes "sent (register lib rnd d req) = Some r" and "status r = 201"
  shows "\<exists>pw u. r_password req = Some pw \<and> 15 \<le> length pw \<and> length pw \<le> 20
           \<and> User_create d rnd (r_firstName req) (r_lastName req) (r_email req) (r_mobilePhone req)
                (hashSync lib pw (genSaltSync rnd)) = Inr (store (register lib rnd d req), u)
           \<and> r = created u"
proof -
  from assms obtain pw where pw: "r_password req = Some pw"
    by (cases "r_password req") (auto simp: register_def)
  let ?c = "User_create d rnd (r_firstName req) (r_lastName req) (r_email req)
              (r_mobilePhone req) (hashSync lib pw (genSaltSync rnd))"
  show ?thesis
  proof (cases ?c)
    case (Inl e)
    with assms pw have False
      by (auto simp: register_def register_catch_def res_json_def notCreated_def
          passwordRejected_def Let_def split: if_splits)
    then show ?thesis ..
  next
    case (Inr p)
    obtain d' u where p: "p = (d', u)" by (cases p)
    have len: "\<not> (length pw < 15 \<or> 20 < length pw)"
      using assms pw Inr p
      by (auto simp: register_def register_catch_def res_json_def notCreated_def
          passwordRejected_def Let_def split: if_splits)
    with assms pw Inr p have "r = created u" and "store (register lib rnd d req) = d'"
      by (auto simp: register_def res_json_def Let_def)
    with pw len Inr p show ?thesis by auto
  qed
qed

lemma find_snoc: "find P xs = None \<Longrightarrow> find P (xs @ [x]) = (if P x then Some x else None)"
  by (induction xs) (auto split: if_splits)

text \<open>
  The token a login returns is the one registration issued: after a successful
  registration, a successful login with the registered email answers for the document
  registration created.
\<close>

lemma register_then_login:
  assumes reg: "sent (register lib rnd d req) = Some r1" "status r1 = 201"
      and log: "sent (login lib (store (register lib rnd d req)) req') = Some r2" "status r2 = 200"
      and em: "r_email req' = r_email req"
  shows "\<exists>u. r1 = created u \<and> r2 = loggedIn u \<and> accessToken u = randomBytes rnd"
proof -
  from register_201 [OF reg] obtain pw u where
    c: "User_create d rnd (r_firstName req) (r_lastName req) (r_email req) (r_mobilePhone req)
          (hashSync lib pw (genSaltSync rnd)) = Inr (store (register lib rnd d req), u)"
    and r1: "r1 = created u"
    by blast
  from User_create_Inr [OF c] obtain e where
    e: "r_email req = Some e" "email u = e" "accessToken u = randomBytes rnd"
    and us: "users (store (register lib rnd d req)) = users d @ [u]"
    and new: "e \<notin> set (map email (users d))"
    by auto
  from new have "find (\<lambda>x. Some (email x) = Some e) (users d) = None"
    by (auto simp: find_None_iff)
  with e have f: "find (\<lambda>x. Some (email x) = r_email req') (users d @ [u]) = Some u"
    using em by (simp add: find_snoc)
  from login_200 [OF log] f us have "r2 = loggedIn u" by auto
  with r1 e show ?thesis by blast
qed

text \<open>
  Claim C7. A valid registration (names of 2 to 30 characters, an email and a phone
  that no user has, a password of 15 to 20 characters, the store answering) is answered
  with 201 and a projection of first name, last name, email, phone, id and the new
  \<^verbatim>\<open>accessToken\<close>; the projection has no \<^verbatim>\<open>password\<close> key. The one document added to
  the store holds the bcrypt hash of the password under the drawn salt.
\<close>

theorem register_valid:
  assumes names: "r_firstName req = Some f" "2 \<le> length f" "length f \<le> 30"
                 "r_lastName req = Some l" "2 \<le> length l" "length l \<le> 30"
      and contact: "r_email req = Some e" "e \<noteq> []" "r_mobilePhone req = Some p"
      and pw: "r_password req = Some pw" "15 \<le> length pw" "length pw \<le> 20"
      and hash: "hashSync lib pw (genSaltSync rnd) \<noteq> []"
      and free: "online d" "e \<notin> set (map email (users d))" "p \<notin> set (map mobilePhone (users d))"
  shows "\<exists>projection.
           sent (register lib rnd d req) =
             Some \<lparr>status = 201,
                   body = JObj [(''success'', JBool True), (''response'', JObj projection)]\<rparr>
         \<and> projection =
             [(''firstName'', JStr f), (''lastName'', JStr l), (''email'', JStr e),
              (''mobilePhone'', JNum p),
              (''id'', JId (newObjectId (map user_id (users d)))),
              (''accessToken'', JStr (randomBytes rnd))]
         \<and> map fst projection =
             [''firstName'', ''lastName'', ''email'', ''mobilePhone'', ''id'', ''accessToken'']
         \<and> users (store (register lib rnd d req)) =
             users d @ [\<lparr>user_id = newObjectId (map user_id (users d)),
                          firstName = f, lastName = l, email = e, mobilePhone = p,
                          password = hashSync lib pw (genSaltSync rnd),
                          accessToken = randomBytes rnd, bookedTreatments = [],
                          user_v = 0\<rparr>]"
proof -
  have v: "validName (Some f)" "validName (Some l)"
    using names by (simp_all add: validName_def)
  note c = User_create_valid [OF v contact(2) hash free, of rnd]
  have len: "\<not> (length pw < 15 \<or> 20 < length pw)" using pw by simp
  show ?thesis
    using names(1,4) contact(1,3) pw(1) len c
    by (simp add: register_def res_json_def created_def Let_def)
qed

theorem register_valid_witness:
  "sent (register example_bcrypt example_entropy salon bodil) =
     Some \<lparr>status = 201,
           body = JObj [(''success'', JBool True),
             (''response'',
              JObj [(''firstName'', JStr ''Bodil''), (''lastName'', JStr ''Nilsson''),
                    (''email'', JStr ''bodil@example.com''), (''mobilePhone'', JNum 709876543),
                    (''id'', JId 2), (''accessToken'', JStr ''d4e5f6'')])]\<rparr>
   \<and> map password (users (store (register example_bcrypt example_entropy salon bodil))) =
       [''$2b$10$saltalice-secret-2023'', ''$2b$10$saltbodil-secret-2023'']"
proof -
  have "newObjectId (map user_id (users salon)) = 2"
    by (simp add: newObjectId_def salon_def alice_def)
  with register_valid [of bodil "''Bodil''" "''Nilsson''" "''bodil@example.com''" 709876543
      "''bodil-secret-2023''" example_bcrypt example_entropy salon]
  show ?thesis
    by (simp add: bodil_def anonymous_def example_bcrypt_def example_entropy_def salon_def alice_def)
qed

text \<open>
  The length check of the registration handler does not end the request: when the
  document is otherwise valid it is saved, and the client keeps the 400 already sent.
\<close>

lemma register_password_length_not_enforced:
  assumes "r_password req = Some pw" and "length pw < 15 \<or> 20 < length pw"
      and "User_create d rnd (r_firstName req) (r_lastName req) (r_email req) (r_mobilePhone req)
             (hashSync lib pw (genSaltSync rnd)) = Inr (d', u)"
  shows "register lib rnd d req = \<lparr>sent = Some passwordRejected, store = d'\<rparr>"
  using assms by (auto simp: register_def register_catch_def res_json_def Let_def)

text \<open>
  Claim C2 at a concrete request. Bodil registers with the 5-character password
  \<^verbatim>\<open>short\<close>: the response is the 400 of the length check, and the store has a new user
  document for her.
\<close>

theorem register_short_password_persists:
  "sent (register example_bcrypt example_entropy salon (bodil\<lparr>r_password := Some ''short''\<rparr>))
     = Some passwordRejected
   \<and> status passwordRejected = 400
   \<and> users (store (register example_bcrypt example_entropy salon (bodil\<lparr>r_password := Some ''short''\<rparr>)))
     = [alice,
        \<lparr>user_id = 2, firstName = ''Bodil'', lastName = ''Nilsson'', email = ''bodil@example.com'',
         mobilePhone = 709876543, password = ''$2b$10$saltshort'', accessToken = ''d4e5f6'',
         bookedTreatments = [], user_v = 0\<rparr>]"
  by (simp add: register_def register_catch_def res_json_def User_create_def invalidPaths_def
      validName_def bodil_def anonymous_def example_bcrypt_def example_entropy_def salon_def
      alice_def newObjectId_def passwordRejected_def Let_def)

end
